theory Spec2Isabelle
  imports Main "HOL-Library.Sublist" "HOL-Library.Multiset"
begin

section \<open>Entity model\<close>

text \<open>
  The embedding follows \<^verbatim>\<open>range_booking_automation.py\<close>.

  \<^item> A \<^verbatim>\<open>datetime\<close> is a point on a linear time line, an \<open>int\<close>; the source only
    compares datetimes (\<^verbatim>\<open><\<close>, \<^verbatim>\<open>>\<close>, \<^verbatim>\<open><=\<close>, \<^verbatim>\<open>>=\<close>) and prints them.
  \<^item> \<^verbatim>\<open>Booking\<close> objects are mutable and shared between the booking collection, the
    audit log and the caller, so they live in a store: a \<open>ref\<close> is the identity of a
    \<^verbatim>\<open>Booking\<close> object, \<open>heap\<close> gives its current fields.
  \<^item> \<^verbatim>\<open>User\<close> and \<^verbatim>\<open>Resource\<close> objects are never mutated by the system and are
    only read through their fields, so they are held by value.
  \<^item> The results of \<^verbatim>\<open>datetime.now()\<close> and \<^verbatim>\<open>uuid.uuid4()\<close> are inputs of the
    operation that calls them (\<open>now\<close>, \<open>uuid\<close>).
  \<^item> A raised exception is a value \<open>Inl e\<close>; every operation returns the state it leaves
    behind as well, also when it raises.
\<close>

type_synonym datetime = int
type_synonym ref = nat

datatype BookingStatus = PENDING | APPROVED | DENIED | CANCELLED | BUMPED

text \<open>\<^verbatim>\<open>BookingStatus.value\<close>\<close>
fun status_value :: "BookingStatus \<Rightarrow> string" where
  "status_value PENDING = ''pending''"
| "status_value APPROVED = ''approved''"
| "status_value DENIED = ''denied''"
| "status_value CANCELLED = ''cancelled''"
| "status_value BUMPED = ''bumped''"

datatype UserRole = STAFF | USER | ADMIN

datatype ActionType = CREATE | APPROVE | DENY | RESCHEDULE | OVERRIDE | BUMP | CANCEL

datatype error = PermissionError string | ValueError string

record User =
  user_id :: string
  user_name :: string
  role :: UserRole

record Resource =
  resource_id :: string
  resource_name :: string
  resource_type :: string
  capacity :: int

record Booking =
  booking_id :: string
  resource :: Resource
  requester :: User
  start_time :: datetime
  end_time :: datetime
  status :: BookingStatus
  purpose :: string
  priority :: int
  created_at :: datetime

text \<open>
  The pieces of an f-string: the literal text and the interpolated values, kept apart
  instead of rendered (\<open>Fmt_ids\<close> is the \<^verbatim>\<open>repr\<close> of a list of id strings,
  \<open>Fmt_datetime\<close> the \<^verbatim>\<open>str\<close> of a datetime).
\<close>
datatype fpart =
    Lit string
  | Fmt_str string
  | Fmt_ids "string list"
  | Fmt_datetime datetime

text \<open>
  The values of a \<^verbatim>\<open>previous_state\<close> dict: a plain string, or the string
  \<^verbatim>\<open>d.isoformat()\<close> of a datetime \<open>d\<close>.
\<close>
datatype pyval = Str string | Isoformat datetime

record AuditLogEntry =
  entry_id :: string
  timestamp :: datetime
  action :: ActionType
  actor :: User
  booking :: ref
  details :: "fpart list"
  previous_state :: "(string \<times> pyval) list option"

record RangeBookingAutomation =
  heap :: "ref \<Rightarrow> Booking"
  next_ref :: ref
  bookings :: "ref list"
  audit_log :: "AuditLogEntry list"
  resources :: "string \<rightharpoonup> Resource"
  users :: "string \<rightharpoonup> User"

text \<open>
  \<^verbatim>\<open>Booking(id, resource, requester, start_time, end_time, purpose=, priority=)\<close>:
  the generated \<^verbatim>\<open>__init__\<close> (status defaults to PENDING, \<^verbatim>\<open>created_at\<close> to
  \<^verbatim>\<open>datetime.now()\<close>) followed by \<^verbatim>\<open>__post_init__\<close>.
\<close>
definition Booking_init ::
  "datetime \<Rightarrow> string \<Rightarrow> string \<Rightarrow> Resource \<Rightarrow> User \<Rightarrow> datetime \<Rightarrow> datetime \<Rightarrow> string \<Rightarrow> int
    \<Rightarrow> error + Booking" where
  "Booking_init now uuid bid res req st en purp prio =
     (let self = \<lparr>booking_id = bid, resource = res, requester = req, start_time = st,
                  end_time = en, status = PENDING, purpose = purp, priority = prio,
                  created_at = now\<rparr>;
          self = (if booking_id self = [] then self\<lparr>booking_id := uuid\<rparr> else self)
      in if end_time self \<le> start_time self
         then Inl (ValueError ''End time must be after start time'')
         else Inr self)"

text \<open>\<^verbatim>\<open>Booking.overlaps_with\<close>\<close>
definition overlaps_with :: "Booking \<Rightarrow> Booking \<Rightarrow> bool" where
  "overlaps_with self other =
     (resource_id (resource self) = resource_id (resource other) \<and>
      start_time self < end_time other \<and>
      end_time self > start_time other)"

text \<open>\<^verbatim>\<open>AuditLogEntry(...)\<close> with its \<^verbatim>\<open>__post_init__\<close>\<close>
definition AuditLogEntry_init ::
  "string \<Rightarrow> string \<Rightarrow> datetime \<Rightarrow> ActionType \<Rightarrow> User \<Rightarrow> ref \<Rightarrow> fpart list
    \<Rightarrow> (string \<times> pyval) list option \<Rightarrow> AuditLogEntry" where
  "AuditLogEntry_init uuid eid ts act who b det prev =
     (let self = \<lparr>entry_id = eid, timestamp = ts, action = act, actor = who, booking = b,
                  details = det, previous_state = prev\<rparr>
      in if entry_id self = [] then self\<lparr>entry_id := uuid\<rparr> else self)"

section \<open>The automation system\<close>

text \<open>\<^verbatim>\<open>RangeBookingAutomation.__init__\<close>\<close>
definition init_system :: "(ref \<Rightarrow> Booking) \<Rightarrow> RangeBookingAutomation" where
  "init_system h =
     \<lparr>heap = h, next_ref = 0, bookings = [], audit_log = [],
      resources = Map.empty, users = Map.empty\<rparr>"

definition register_resource :: "Resource \<Rightarrow> RangeBookingAutomation \<Rightarrow> RangeBookingAutomation" where
  "register_resource res s = s\<lparr>resources := (resources s)(resource_id res \<mapsto> res)\<rparr>"

definition register_user :: "User \<Rightarrow> RangeBookingAutomation \<Rightarrow> RangeBookingAutomation" where
  "register_user u s = s\<lparr>users := (users s)(user_id u \<mapsto> u)\<rparr>"

text \<open>\<^verbatim>\<open>_is_staff_or_admin\<close>\<close>
definition is_staff_or_admin :: "User \<Rightarrow> bool" where
  "is_staff_or_admin u = (role u \<in> set [STAFF, ADMIN])"

text \<open>\<^verbatim>\<open>_add_audit_log\<close>\<close>
definition add_audit_log ::
  "datetime \<Rightarrow> string \<Rightarrow> ActionType \<Rightarrow> User \<Rightarrow> ref \<Rightarrow> fpart list
    \<Rightarrow> (string \<times> pyval) list option \<Rightarrow> RangeBookingAutomation \<Rightarrow> RangeBookingAutomation" where
  "add_audit_log now uuid act who b det prev s =
     (let entry = AuditLogEntry_init uuid [] now act who b det prev
      in s\<lparr>audit_log := audit_log s @ [entry]\<rparr>)"

text \<open>An assignment to a field of the \<^verbatim>\<open>Booking\<close> object \<open>b\<close>.\<close>
definition set_status :: "ref \<Rightarrow> BookingStatus \<Rightarrow> RangeBookingAutomation \<Rightarrow> RangeBookingAutomation" where
  "set_status b v s = s\<lparr>heap := (heap s)(b := (heap s b)\<lparr>status := v\<rparr>)\<rparr>"

definition set_start_time :: "ref \<Rightarrow> datetime \<Rightarrow> RangeBookingAutomation \<Rightarrow> RangeBookingAutomation" where
  "set_start_time b v s = s\<lparr>heap := (heap s)(b := (heap s b)\<lparr>start_time := v\<rparr>)\<rparr>"

definition set_end_time :: "ref \<Rightarrow> datetime \<Rightarrow> RangeBookingAutomation \<Rightarrow> RangeBookingAutomation" where
  "set_end_time b v s = s\<lparr>heap := (heap s)(b := (heap s b)\<lparr>end_time := v\<rparr>)\<rparr>"

text \<open>\<^verbatim>\<open>[c.id for c in conflicts]\<close>\<close>
definition ids_of :: "RangeBookingAutomation \<Rightarrow> ref list \<Rightarrow> string list" where
  "ids_of s cs = map (\<lambda>c. booking_id (heap s c)) cs"

text \<open>
  \<^verbatim>\<open>create_booking_request\<close>. \<open>created\<close> and \<open>bid\<close> are the \<^verbatim>\<open>datetime.now()\<close> and
  \<^verbatim>\<open>uuid4()\<close> of the \<^verbatim>\<open>Booking\<close> constructor, \<open>now\<close> and \<open>uuid\<close> those of the audit
  entry. The new object gets the next unused identity.
\<close>
definition create_booking_request ::
  "datetime \<Rightarrow> string \<Rightarrow> datetime \<Rightarrow> string \<Rightarrow> Resource \<Rightarrow> User \<Rightarrow> datetime \<Rightarrow> datetime \<Rightarrow> string
    \<Rightarrow> int \<Rightarrow> RangeBookingAutomation \<Rightarrow> (error + ref) \<times> RangeBookingAutomation" where
  "create_booking_request created bid now uuid res req st en purp prio s =
     (case Booking_init created bid [] res req st en purp prio of
        Inl e \<Rightarrow> (Inl e, s)
      | Inr obj \<Rightarrow>
          (let b = next_ref s;
               s1 = s\<lparr>heap := (heap s)(b := obj), next_ref := Suc b\<rparr>;
               s2 = s1\<lparr>bookings := bookings s1 @ [b]\<rparr>;
               s3 = add_audit_log now uuid CREATE req b
                      [Lit ''Booking request created for '', Fmt_str (resource_name res)]
                      None s2
           in (Inr b, s3)))"

text \<open>\<^verbatim>\<open>check_conflicts\<close>: the loop over \<^verbatim>\<open>self.bookings\<close>, \<open>conflicts\<close> the accumulator.\<close>
fun check_conflicts_loop :: "(ref \<Rightarrow> Booking) \<Rightarrow> ref \<Rightarrow> ref list \<Rightarrow> ref list \<Rightarrow> ref list" where
  "check_conflicts_loop h b [] conflicts = conflicts"
| "check_conflicts_loop h b (existing # rest) conflicts =
     check_conflicts_loop h b rest
       (if booking_id (h existing) \<noteq> booking_id (h b) \<and>
           status (h existing) = APPROVED \<and>
           overlaps_with (h b) (h existing)
        then conflicts @ [existing] else conflicts)"

definition check_conflicts :: "RangeBookingAutomation \<Rightarrow> ref \<Rightarrow> ref list" where
  "check_conflicts s b = check_conflicts_loop (heap s) b (bookings s) []"

text \<open>\<^verbatim>\<open>approve_booking\<close>\<close>
definition approve_booking ::
  "datetime \<Rightarrow> string \<Rightarrow> ref \<Rightarrow> User \<Rightarrow> bool \<Rightarrow> RangeBookingAutomation
    \<Rightarrow> (error + bool) \<times> RangeBookingAutomation" where
  "approve_booking now uuid b approver force_override s =
     (if \<not> is_staff_or_admin approver
      then (Inl (PermissionError ''Only staff or admin can approve bookings''), s)
      else
       (let conflicts = check_conflicts s b in
        if conflicts \<noteq> [] \<and> \<not> force_override
        then (Inr False,
              add_audit_log now uuid APPROVE approver b
                [Lit ''Cannot approve due to conflicts with bookings: '',
                 Fmt_ids (ids_of s conflicts)]
                None s)
        else
         (let previous_state = [(''status'', Str (status_value (status (heap s b))))];
              s1 = set_status b APPROVED s
          in if force_override \<and> conflicts \<noteq> []
             then (Inr True,
                   add_audit_log now uuid OVERRIDE approver b
                     [Lit ''Booking approved with override (conflicts: '',
                      Fmt_ids (ids_of s1 conflicts), Lit '')'']
                     (Some previous_state) s1)
             else (Inr True,
                   add_audit_log now uuid APPROVE approver b
                     [Lit ''Booking approved'']
                     (Some previous_state) s1))))"

text \<open>\<^verbatim>\<open>deny_booking\<close>\<close>
definition deny_booking ::
  "datetime \<Rightarrow> string \<Rightarrow> ref \<Rightarrow> User \<Rightarrow> string \<Rightarrow> RangeBookingAutomation
    \<Rightarrow> (error + unit) \<times> RangeBookingAutomation" where
  "deny_booking now uuid b denier reason s =
     (if \<not> is_staff_or_admin denier
      then (Inl (PermissionError ''Only staff or admin can deny bookings''), s)
      else
       (let previous_state = [(''status'', Str (status_value (status (heap s b))))];
            s1 = set_status b DENIED s
        in (Inr (),
            add_audit_log now uuid DENY denier b
              [Lit ''Booking denied. Reason: '', Fmt_str reason]
              (Some previous_state) s1)))"

text \<open>\<^verbatim>\<open>reschedule_booking\<close>\<close>
definition reschedule_booking ::
  "datetime \<Rightarrow> string \<Rightarrow> ref \<Rightarrow> User \<Rightarrow> datetime \<Rightarrow> datetime \<Rightarrow> bool \<Rightarrow> RangeBookingAutomation
    \<Rightarrow> (error + bool) \<times> RangeBookingAutomation" where
  "reschedule_booking now uuid b rescheduler new_start_time new_end_time force_override s =
     (if \<not> is_staff_or_admin rescheduler
      then (Inl (PermissionError ''Only staff or admin can reschedule bookings''), s)
      else if new_end_time \<le> new_start_time
      then (Inl (ValueError ''End time must be after start time''), s)
      else
       (let previous_state =
              [(''start_time'', Isoformat (start_time (heap s b))),
               (''end_time'', Isoformat (end_time (heap s b))),
               (''status'', Str (status_value (status (heap s b))))];
            old_start = start_time (heap s b);
            old_end = end_time (heap s b);
            s1 = set_start_time b new_start_time s;
            s2 = set_end_time b new_end_time s1;
            conflicts = check_conflicts s2 b
        in if conflicts \<noteq> [] \<and> \<not> force_override
           then
            (let s3 = set_start_time b old_start s2;
                 s4 = set_end_time b old_end s3
             in (Inr False,
                 add_audit_log now uuid RESCHEDULE rescheduler b
                   [Lit ''Cannot reschedule due to conflicts with bookings: '',
                    Fmt_ids (ids_of s4 conflicts)]
                   None s4))
           else
            (let s3 = set_status b APPROVED s2;
                 details = [Lit ''Booking rescheduled from '', Fmt_datetime old_start,
                            Lit '' to '', Fmt_datetime new_start_time];
                 details = (if force_override \<and> conflicts \<noteq> []
                            then details @ [Lit '' (overriding conflicts: '',
                                            Fmt_ids (ids_of s3 conflicts), Lit '')'']
                            else details)
             in (Inr True,
                 add_audit_log now uuid RESCHEDULE rescheduler b details
                   (Some previous_state) s3))))"

text \<open>\<^verbatim>\<open>bump_booking\<close>\<close>
definition bump_booking ::
  "datetime \<Rightarrow> string \<Rightarrow> ref \<Rightarrow> User \<Rightarrow> ref \<Rightarrow> string \<Rightarrow> RangeBookingAutomation
    \<Rightarrow> (error + unit) \<times> RangeBookingAutomation" where
  "bump_booking now uuid booking_to_bump bumper higher_priority_booking reason s =
     (if \<not> is_staff_or_admin bumper
      then (Inl (PermissionError ''Only staff or admin can bump bookings''), s)
      else
       (let previous_state =
              [(''status'', Str (status_value (status (heap s booking_to_bump))))];
            s1 = set_status booking_to_bump BUMPED s;
            details = [Lit ''Booking bumped for higher priority booking '',
                       Fmt_str (booking_id (heap s1 higher_priority_booking)),
                       Lit ''. '', Lit ''Reason: '', Fmt_str reason]
        in (Inr (),
            add_audit_log now uuid BUMP bumper booking_to_bump details
              (Some previous_state) s1)))"

text \<open>\<^verbatim>\<open>cancel_booking\<close>\<close>
definition cancel_booking ::
  "datetime \<Rightarrow> string \<Rightarrow> ref \<Rightarrow> User \<Rightarrow> string \<Rightarrow> RangeBookingAutomation
    \<Rightarrow> (error + unit) \<times> RangeBookingAutomation" where
  "cancel_booking now uuid b canceller reason s =
     (if user_id (requester (heap s b)) \<noteq> user_id canceller \<and> \<not> is_staff_or_admin canceller
      then (Inl (PermissionError ''Only the requester or staff can cancel a booking''), s)
      else
       (let previous_state = [(''status'', Str (status_value (status (heap s b))))];
            s1 = set_status b CANCELLED s
        in (Inr (),
            add_audit_log now uuid CANCEL canceller b
              [Lit ''Booking cancelled. Reason: '', Fmt_str reason]
              (Some previous_state) s1)))"

text \<open>
  \<^verbatim>\<open>get_bookings_by_resource\<close>. A datetime and an enum member are always true in a
  condition, so \<^verbatim>\<open>if start_date:\<close> tests for \<^verbatim>\<open>None\<close>. \<^verbatim>\<open>sorted\<close> with a key is a
  stable sort, as \<open>sort_key\<close> is.
\<close>
definition get_bookings_by_resource ::
  "RangeBookingAutomation \<Rightarrow> string \<Rightarrow> datetime option \<Rightarrow> datetime option
    \<Rightarrow> BookingStatus option \<Rightarrow> ref list" where
  "get_bookings_by_resource s rid start_date end_date st =
     (let bs = filter (\<lambda>b. resource_id (resource (heap s b)) = rid) (bookings s);
          bs = (case start_date of
                  None \<Rightarrow> bs
                | Some d \<Rightarrow> filter (\<lambda>b. end_time (heap s b) \<ge> d) bs);
          bs = (case end_date of
                  None \<Rightarrow> bs
                | Some d \<Rightarrow> filter (\<lambda>b. start_time (heap s b) \<le> d) bs);
          bs = (case st of
                  None \<Rightarrow> bs
                | Some v \<Rightarrow> filter (\<lambda>b. status (heap s b) = v) bs)
      in sort_key (\<lambda>b. start_time (heap s b)) bs)"

text \<open>
  The conflicts of the booking \<open>b\<close> if it occupied the interval from \<open>st\<close> to \<open>en\<close>, read off
  the state before any field is touched: what the specification calls the conflicts
  against APPROVED bookings on the new interval.
\<close>
definition conflicts_on_interval ::
  "RangeBookingAutomation \<Rightarrow> ref \<Rightarrow> datetime \<Rightarrow> datetime \<Rightarrow> ref list" where
  "conflicts_on_interval s b st en =
     filter (\<lambda>r. booking_id (heap s r) \<noteq> booking_id (heap s b) \<and>
                 resource_id (resource (heap s r)) = resource_id (resource (heap s b)) \<and>
                 status (heap s r) = APPROVED \<and>
                 st < end_time (heap s r) \<and> en > start_time (heap s r))
            (bookings s)"

section \<open>A day at the range\<close>

definition staff :: User where
  "staff = \<lparr>user_id = ''u-staff'', user_name = ''Sam'', role = STAFF\<rparr>"

definition alice :: User where
  "alice = \<lparr>user_id = ''u-alice'', user_name = ''Alice'', role = USER\<rparr>"

definition mallory :: User where
  "mallory = \<lparr>user_id = ''u-mallory'', user_name = ''Mallory'', role = USER\<rparr>"

definition bay1 :: Resource where
  "bay1 = \<lparr>resource_id = ''bay-1'', resource_name = ''Bay 1'', resource_type = ''bay'',
           capacity = 1\<rparr>"

definition slot :: "string \<Rightarrow> datetime \<Rightarrow> datetime \<Rightarrow> BookingStatus \<Rightarrow> Booking" where
  "slot bid st en stat =
     \<lparr>booking_id = bid, resource = bay1, requester = alice, start_time = st, end_time = en,
      status = stat, purpose = ''Training'', priority = 0, created_at = 0\<rparr>"

text \<open>
  Four bookings of Bay 1, the objects 10 to 13: an approved one from 10 to 12, a pending one from 11 to 13 that
  overlaps it, a denied one from 20 to 22, and a pending one from 12 to 14, back to back
  with the first.
\<close>
definition range_day :: RangeBookingAutomation where
  "range_day =
     \<lparr>heap = (\<lambda>_. slot [] 0 1 PENDING)
               (10 := slot ''b0'' 10 12 APPROVED,
                11 := slot ''b1'' 11 13 PENDING,
                12 := slot ''b2'' 20 22 DENIED,
                13 := slot ''b3'' 12 14 PENDING),
      next_ref = 14, bookings = [10, 11, 12, 13], audit_log = [],
      resources = [''bay-1'' \<mapsto> bay1],
      users = [''u-staff'' \<mapsto> staff, ''u-alice'' \<mapsto> alice, ''u-mallory'' \<mapsto> mallory]\<rparr>"

text \<open>
  A second scenario, from the empty system: Alice requests Bay 1 from 10 to 12, and
  staff deny the request.
\<close>
definition fresh :: RangeBookingAutomation where
  "fresh = init_system (\<lambda>_. slot [] 0 1 PENDING)"

definition after_create :: RangeBookingAutomation where
  "after_create =
     snd (create_booking_request 1 ''b-new'' 1 ''e0'' bay1 alice 10 12 ''Training'' 0 fresh)"

definition after_deny :: RangeBookingAutomation where
  "after_deny = snd (deny_booking 2 ''e1'' 0 staff ''Resource unavailable'' after_create)"

section \<open>Basic facts\<close>

lemma add_audit_log_heap [simp]: "heap (add_audit_log now uuid act who b det prev s) = heap s"
  by (simp add: add_audit_log_def)

lemma add_audit_log_bookings [simp]:
  "bookings (add_audit_log now uuid act who b det prev s) = bookings s"
  by (simp add: add_audit_log_def)

lemma add_audit_log_audit_log [simp]:
  "audit_log (add_audit_log now uuid act who b det prev s) =
     audit_log s @ [\<lparr>entry_id = uuid, timestamp = now, action = act, actor = who, booking = b,
                      details = det, previous_state = prev\<rparr>]"
  by (simp add: add_audit_log_def AuditLogEntry_init_def)

lemma set_status_heap [simp]:
  "heap (set_status b v s) = (heap s)(b := (heap s b)\<lparr>status := v\<rparr>)"
  by (simp add: set_status_def)

lemma set_status_rest [simp]:
  "bookings (set_status b v s) = bookings s"
  "audit_log (set_status b v s) = audit_log s"
  by (simp_all add: set_status_def)

lemma set_start_time_heap [simp]:
  "heap (set_start_time b v s) = (heap s)(b := (heap s b)\<lparr>start_time := v\<rparr>)"
  by (simp add: set_start_time_def)

lemma set_start_time_rest [simp]:
  "bookings (set_start_time b v s) = bookings s"
  "audit_log (set_start_time b v s) = audit_log s"
  by (simp_all add: set_start_time_def)

lemma set_end_time_heap [simp]:
  "heap (set_end_time b v s) = (heap s)(b := (heap s b)\<lparr>end_time := v\<rparr>)"
  by (simp add: set_end_time_def)

lemma set_end_time_rest [simp]:
  "bookings (set_end_time b v s) = bookings s"
  "audit_log (set_end_time b v s) = audit_log s"
  by (simp_all add: set_end_time_def)

text \<open>The loop of \<open>check_conflicts\<close> appends, in order, the bookings that pass its test.\<close>
lemma check_conflicts_loop_filter:
  "check_conflicts_loop h b xs acc =
     acc @ filter (\<lambda>r. booking_id (h r) \<noteq> booking_id (h b) \<and> status (h r) = APPROVED \<and>
                        overlaps_with (h b) (h r)) xs"
  by (induction xs arbitrary: acc) simp_all

lemma check_conflicts_filter:
  "check_conflicts s b =
     filter (\<lambda>r. booking_id (heap s r) \<noteq> booking_id (heap s b) \<and>
                 status (heap s r) = APPROVED \<and>
                 overlaps_with (heap s b) (heap s r)) (bookings s)"
  by (simp add: check_conflicts_def check_conflicts_loop_filter)

lemma conflicts_facts:
  assumes "c \<in> set (check_conflicts s b)"
  shows "c \<noteq> b" "c \<in> set (bookings s)" "status (heap s c) = APPROVED"
    "overlaps_with (heap s b) (heap s c)"
  using assms by (auto simp: check_conflicts_filter)

lemma overlaps_with_status [simp]:
  "overlaps_with (x\<lparr>status := v\<rparr>) y = overlaps_with x y"
  by (simp add: overlaps_with_def)

text \<open>What each operation leaves in the store, and what it returns.\<close>
lemma approve_booking_heap:
  "heap (snd (approve_booking now uuid b approver force s)) =
     (if is_staff_or_admin approver \<and> (check_conflicts s b = [] \<or> force)
      then (heap s)(b := (heap s b)\<lparr>status := APPROVED\<rparr>) else heap s)"
  by (simp add: approve_booking_def Let_def)

lemma approve_booking_bookings:
  "bookings (snd (approve_booking now uuid b approver force s)) = bookings s"
  by (simp add: approve_booking_def Let_def)

lemma approve_booking_fst:
  "fst (approve_booking now uuid b approver force s) =
     (if \<not> is_staff_or_admin approver
      then Inl (PermissionError ''Only staff or admin can approve bookings'')
      else Inr (check_conflicts s b = [] \<or> force))"
  by (simp add: approve_booking_def Let_def)

lemma deny_booking_heap:
  "heap (snd (deny_booking now uuid b u reason s)) =
     (if is_staff_or_admin u then (heap s)(b := (heap s b)\<lparr>status := DENIED\<rparr>) else heap s)"
  by (simp add: deny_booking_def Let_def)

lemma bump_booking_heap:
  "heap (snd (bump_booking now uuid b u hp reason s)) =
     (if is_staff_or_admin u then (heap s)(b := (heap s b)\<lparr>status := BUMPED\<rparr>) else heap s)"
  by (simp add: bump_booking_def Let_def)

lemma cancel_booking_heap:
  "heap (snd (cancel_booking now uuid b u reason s)) =
     (if user_id (requester (heap s b)) \<noteq> user_id u \<and> \<not> is_staff_or_admin u
      then heap s else (heap s)(b := (heap s b)\<lparr>status := CANCELLED\<rparr>))"
  by (simp add: cancel_booking_def Let_def)

text \<open>
  The conflict scan of \<open>reschedule_booking\<close>, run on the booking with its new times
  written in place, finds the conflicts on the new interval.
\<close>
lemma check_conflicts_speculative:
  "check_conflicts (set_end_time b en (set_start_time b st s)) b =
     conflicts_on_interval s b st en"
  unfolding check_conflicts_filter conflicts_on_interval_def
  by (simp add: overlaps_with_def) (rule filter_cong, auto)

lemma reschedule_booking_fst:
  "fst (reschedule_booking now uuid b u st en force s) =
     (if \<not> is_staff_or_admin u
      then Inl (PermissionError ''Only staff or admin can reschedule bookings'')
      else if en \<le> st then Inl (ValueError ''End time must be after start time'')
      else Inr (conflicts_on_interval s b st en = [] \<or> force))"
  by (simp add: reschedule_booking_def Let_def check_conflicts_speculative)

lemma reschedule_booking_heap:
  "heap (snd (reschedule_booking now uuid b u st en force s)) =
     (if is_staff_or_admin u \<and> st < en \<and> (conflicts_on_interval s b st en = [] \<or> force)
      then (heap s)(b := (heap s b)\<lparr>start_time := st, end_time := en, status := APPROVED\<rparr>)
      else heap s)"
  by (simp add: reschedule_booking_def Let_def check_conflicts_speculative)

lemma reschedule_booking_bookings:
  "bookings (snd (reschedule_booking now uuid b u st en force s)) = bookings s"
  by (simp add: reschedule_booking_def Let_def)

lemma approve_booking_audit_log:
  "audit_log (snd (approve_booking now uuid b u force s)) =
     (if \<not> is_staff_or_admin u then audit_log s
      else if check_conflicts s b \<noteq> [] \<and> \<not> force
      then audit_log s @
        [\<lparr>entry_id = uuid, timestamp = now, action = APPROVE, actor = u, booking = b,
          details = [Lit ''Cannot approve due to conflicts with bookings: '',
                     Fmt_ids (map (\<lambda>c. booking_id (heap s c)) (check_conflicts s b))],
          previous_state = None\<rparr>]
      else audit_log s @
        [\<lparr>entry_id = uuid, timestamp = now,
          action = (if check_conflicts s b \<noteq> [] then OVERRIDE else APPROVE),
          actor = u, booking = b,
          details = (if check_conflicts s b \<noteq> []
                     then [Lit ''Booking approved with override (conflicts: '',
                           Fmt_ids (map (\<lambda>c. booking_id (heap s c)) (check_conflicts s b)),
                           Lit '')'']
                     else [Lit ''Booking approved'']),
          previous_state = Some [(''status'', Str (status_value (status (heap s b))))]\<rparr>])"
  by (simp add: approve_booking_def Let_def ids_of_def)

lemma reschedule_booking_audit_log:
  "audit_log (snd (reschedule_booking now uuid b u st en force s)) =
     (if \<not> is_staff_or_admin u \<or> en \<le> st then audit_log s
      else if conflicts_on_interval s b st en \<noteq> [] \<and> \<not> force
      then audit_log s @
        [\<lparr>entry_id = uuid, timestamp = now, action = RESCHEDULE, actor = u, booking = b,
          details = [Lit ''Cannot reschedule due to conflicts with bookings: '',
                     Fmt_ids (map (\<lambda>c. booking_id (heap s c))
                                (conflicts_on_interval s b st en))],
          previous_state = None\<rparr>]
      else audit_log s @
        [\<lparr>entry_id = uuid, timestamp = now, action = RESCHEDULE, actor = u, booking = b,
          details = [Lit ''Booking rescheduled from '', Fmt_datetime (start_time (heap s b)),
                     Lit '' to '', Fmt_datetime st] @
                    (if force \<and> conflicts_on_interval s b st en \<noteq> []
                     then [Lit '' (overriding conflicts: '',
                           Fmt_ids (map (\<lambda>c. booking_id (heap s c))
                                      (conflicts_on_interval s b st en)),
                           Lit '')'']
                     else []),
          previous_state = Some [(''start_time'', Isoformat (start_time (heap s b))),
                                 (''end_time'', Isoformat (end_time (heap s b))),
                                 (''status'', Str (status_value (status (heap s b))))]\<rparr>])"
  by (simp add: reschedule_booking_def Let_def check_conflicts_speculative ids_of_def)

text \<open>Facts of the two scenarios.\<close>
lemma staff_is_staff: "is_staff_or_admin staff"
  by (simp add: is_staff_or_admin_def staff_def)

lemma range_day_conflicts:
  "check_conflicts range_day 10 = []"
  "check_conflicts range_day 11 = [10]"
  "check_conflicts range_day 12 = []"
  "check_conflicts range_day 13 = []"
  by (simp_all add: check_conflicts_def range_day_def slot_def bay1_def overlaps_with_def)

lemma range_day_heap:
  "heap range_day 10 = slot ''b0'' 10 12 APPROVED"
  "heap range_day 11 = slot ''b1'' 11 13 PENDING"
  "heap range_day 12 = slot ''b2'' 20 22 DENIED"
  "heap range_day 13 = slot ''b3'' 12 14 PENDING"
  by (simp_all add: range_day_def)

lemma range_day_rest:
  "bookings range_day = [10, 11, 12, 13]" "audit_log range_day = []"
  by (simp_all add: range_day_def)

lemma range_day_intervals:
  "conflicts_on_interval range_day 12 11 12 = [10]"
  "conflicts_on_interval range_day 12 14 16 = []"
  by (simp_all add: conflicts_on_interval_def range_day_def slot_def bay1_def)

lemma after_create_eq:
  "after_create =
     \<lparr>heap = (\<lambda>_. slot [] 0 1 PENDING)
               (0 := \<lparr>booking_id = ''b-new'', resource = bay1, requester = alice,
                      start_time = 10, end_time = 12, status = PENDING,
                      purpose = ''Training'', priority = 0, created_at = 1\<rparr>),
      next_ref = 1, bookings = [0],
      audit_log = [\<lparr>entry_id = ''e0'', timestamp = 1, action = CREATE, actor = alice,
                     booking = 0,
                     details = [Lit ''Booking request created for '', Fmt_str ''Bay 1''],
                     previous_state = None\<rparr>],
      resources = Map.empty, users = Map.empty\<rparr>"
  by (simp add: after_create_def fresh_def init_system_def create_booking_request_def
      Booking_init_def Let_def add_audit_log_def AuditLogEntry_init_def bay1_def)

lemma after_deny_facts:
  "status (heap after_deny 0) = DENIED"
  "check_conflicts after_deny 0 = []"
  "bookings after_deny = [0]"
  by (simp_all add: after_deny_def deny_booking_def staff_is_staff Let_def after_create_eq
      check_conflicts_def)

section \<open>Conflict detection\<close>

text \<open>
  Claim C6. \<open>check_conflicts\<close> returns exactly the bookings of the collection, in
  insertion order, whose id differs from the candidate's, whose resource id equals the
  candidate's, whose status is APPROVED and which overlap the candidate under the
  half-open relation (candidate start before other end, candidate end after other start).
  The candidate is never among its own conflicts, and a booking that starts at the time
  the candidate ends, or ends at the time the candidate starts, is never a conflict.
\<close>
theorem check_conflicts_exact:
  "check_conflicts s c =
     filter (\<lambda>r. booking_id (heap s r) \<noteq> booking_id (heap s c) \<and>
                 resource_id (resource (heap s r)) = resource_id (resource (heap s c)) \<and>
                 status (heap s r) = APPROVED \<and>
                 start_time (heap s c) < end_time (heap s r) \<and>
                 end_time (heap s c) > start_time (heap s r))
            (bookings s)
   \<and> c \<notin> set (check_conflicts s c)
   \<and> (\<forall>r. end_time (heap s c) = start_time (heap s r) \<or>
           end_time (heap s r) = start_time (heap s c)
           \<longrightarrow> r \<notin> set (check_conflicts s c))"
proof (intro conjI allI impI)
  show "check_conflicts s c =
     filter (\<lambda>r. booking_id (heap s r) \<noteq> booking_id (heap s c) \<and>
                 resource_id (resource (heap s r)) = resource_id (resource (heap s c)) \<and>
                 status (heap s r) = APPROVED \<and>
                 start_time (heap s c) < end_time (heap s r) \<and>
                 end_time (heap s c) > start_time (heap s r))
            (bookings s)"
    unfolding check_conflicts_filter overlaps_with_def
    by (rule filter_cong) auto
next
  show "c \<notin> set (check_conflicts s c)"
    by (simp add: check_conflicts_filter)
next
  fix r
  assume "end_time (heap s c) = start_time (heap s r) \<or>
          end_time (heap s r) = start_time (heap s c)"
  then show "r \<notin> set (check_conflicts s c)"
    by (auto simp: check_conflicts_filter overlaps_with_def)
qed

theorem check_conflicts_exact_witness:
  "end_time (heap range_day 10) = start_time (heap range_day 13)
   \<and> 13 \<notin> set (check_conflicts range_day 10)
   \<and> 10 \<notin> set (check_conflicts range_day 13)
   \<and> check_conflicts range_day 11 = [10]"
proof -
  have adj: "end_time (heap range_day 10) = start_time (heap range_day 13)"
    by (simp add: range_day_def slot_def)
  have ovl: "check_conflicts range_day 11 = [10]"
    by (simp add: check_conflicts_def range_day_def slot_def bay1_def overlaps_with_def)
  from check_conflicts_exact [of range_day 10] adj
  have a: "13 \<notin> set (check_conflicts range_day 10)" by blast
  from check_conflicts_exact [of range_day 13] adj
  have b: "10 \<notin> set (check_conflicts range_day 13)" by blast
  from adj a b ovl show ?thesis by simp
qed

section \<open>Resource query\<close>

text \<open>
  Claim C9. \<open>get_bookings_by_resource\<close> returns exactly the bookings of the collection
  (each as often as it occurs there) whose resource id is the given one, whose end is at
  or after \<open>start_date\<close> when one is given, whose start is at or before \<open>end_date\<close> when
  one is given, and whose status is the given one when one is given. The result is sorted
  ascending by start time, and bookings with equal start times keep the order they have
  in the collection, whatever the order of the collection.
\<close>
theorem get_bookings_by_resource_sorted_stable:
  "mset (get_bookings_by_resource s rid start_date end_date st) =
     mset (filter (\<lambda>b. resource_id (resource (heap s b)) = rid \<and>
                       (case start_date of None \<Rightarrow> True | Some d \<Rightarrow> end_time (heap s b) \<ge> d) \<and>
                       (case end_date of None \<Rightarrow> True | Some d \<Rightarrow> start_time (heap s b) \<le> d) \<and>
                       (case st of None \<Rightarrow> True | Some v \<Rightarrow> status (heap s b) = v))
                  (bookings s))
   \<and> sorted (map (\<lambda>b. start_time (heap s b))
               (get_bookings_by_resource s rid start_date end_date st))
   \<and> (\<forall>k. filter (\<lambda>b. start_time (heap s b) = k)
             (get_bookings_by_resource s rid start_date end_date st) =
           filter (\<lambda>b. start_time (heap s b) = k)
             (filter (\<lambda>b. resource_id (resource (heap s b)) = rid \<and>
                       (case start_date of None \<Rightarrow> True | Some d \<Rightarrow> end_time (heap s b) \<ge> d) \<and>
                       (case end_date of None \<Rightarrow> True | Some d \<Rightarrow> start_time (heap s b) \<le> d) \<and>
                       (case st of None \<Rightarrow> True | Some v \<Rightarrow> status (heap s b) = v))
                  (bookings s)))"
proof -
  let ?P = "\<lambda>b. resource_id (resource (heap s b)) = rid \<and>
                 (case start_date of None \<Rightarrow> True | Some d \<Rightarrow> end_time (heap s b) \<ge> d) \<and>
                 (case end_date of None \<Rightarrow> True | Some d \<Rightarrow> start_time (heap s b) \<le> d) \<and>
                 (case st of None \<Rightarrow> True | Some v \<Rightarrow> status (heap s b) = v)"
  have eq: "get_bookings_by_resource s rid start_date end_date st =
              sort_key (\<lambda>b. start_time (heap s b)) (filter ?P (bookings s))"
    unfolding get_bookings_by_resource_def Let_def
    by (cases start_date; cases end_date; cases st) (simp_all add: conj_commute conj_left_commute)
  show ?thesis
    unfolding eq by (simp add: sort_key_stable)
qed

section \<open>Approval\<close>

text \<open>
  Claim C4. When the booking has at least one conflict (an APPROVED booking of the
  collection with another id that overlaps it) and an authorized approver calls
  \<open>approve_booking\<close> without \<open>force_override\<close>, the call returns false, no field of any
  booking changes, the collection is unchanged, and exactly one entry is appended to the
  audit log: an APPROVE entry with no previous state whose details list the ids of the
  conflicting bookings.
\<close>
theorem approve_blocked_by_conflicts:
  assumes "is_staff_or_admin approver" and "check_conflicts s b \<noteq> []"
  shows "fst (approve_booking now uuid b approver False s) = Inr False
    \<and> heap (snd (approve_booking now uuid b approver False s)) = heap s
    \<and> bookings (snd (approve_booking now uuid b approver False s)) = bookings s
    \<and> audit_log (snd (approve_booking now uuid b approver False s)) =
        audit_log s @
        [\<lparr>entry_id = uuid, timestamp = now, action = APPROVE, actor = approver, booking = b,
          details = [Lit ''Cannot approve due to conflicts with bookings: '',
                     Fmt_ids (map (\<lambda>c. booking_id (heap s c)) (check_conflicts s b))],
          previous_state = None\<rparr>]"
  using assms by (simp add: approve_booking_def Let_def ids_of_def)

theorem approve_blocked_by_conflicts_witness:
  "is_staff_or_admin staff \<and> check_conflicts range_day 11 \<noteq> []
   \<and> fst (approve_booking 30 ''e1'' 11 staff False range_day) = Inr False
   \<and> heap (snd (approve_booking 30 ''e1'' 11 staff False range_day)) = heap range_day
   \<and> audit_log (snd (approve_booking 30 ''e1'' 11 staff False range_day)) =
       [\<lparr>entry_id = ''e1'', timestamp = 30, action = APPROVE, actor = staff, booking = 11,
         details = [Lit ''Cannot approve due to conflicts with bookings: '', Fmt_ids [''b0'']],
         previous_state = None\<rparr>]"
proof -
  have c: "check_conflicts range_day 11 \<noteq> []"
    by (simp add: range_day_conflicts)
  from approve_blocked_by_conflicts [OF staff_is_staff c, of 30 "''e1''"] c staff_is_staff
  show ?thesis
    by (simp add: range_day_conflicts range_day_heap range_day_rest slot_def)
qed

text \<open>
  Claim C5. When the booking has at least one conflict and an authorized approver calls
  \<open>approve_booking\<close> with \<open>force_override\<close>, the call returns true, the booking becomes
  APPROVED, and exactly one entry is appended: an OVERRIDE entry whose previous state
  holds the status the booking had before. When there is no conflict, the appended entry
  is an APPROVE entry, with or without \<open>force_override\<close>.
\<close>
theorem approve_override_logged_as_override:
  assumes "is_staff_or_admin approver"
  shows "(check_conflicts s b \<noteq> [] \<longrightarrow>
            fst (approve_booking now uuid b approver True s) = Inr True \<and>
            status (heap (snd (approve_booking now uuid b approver True s)) b) = APPROVED \<and>
            audit_log (snd (approve_booking now uuid b approver True s)) =
              audit_log s @
              [\<lparr>entry_id = uuid, timestamp = now, action = OVERRIDE, actor = approver,
                booking = b,
                details = [Lit ''Booking approved with override (conflicts: '',
                           Fmt_ids (map (\<lambda>c. booking_id (heap s c)) (check_conflicts s b)),
                           Lit '')''],
                previous_state = Some [(''status'', Str (status_value (status (heap s b))))]\<rparr>])
       \<and> (check_conflicts s b = [] \<longrightarrow>
            fst (approve_booking now uuid b approver force s) = Inr True \<and>
            status (heap (snd (approve_booking now uuid b approver force s)) b) = APPROVED \<and>
            audit_log (snd (approve_booking now uuid b approver force s)) =
              audit_log s @
              [\<lparr>entry_id = uuid, timestamp = now, action = APPROVE, actor = approver,
                booking = b, details = [Lit ''Booking approved''],
                previous_state = Some [(''status'', Str (status_value (status (heap s b))))]\<rparr>])"
proof -
  have "ids_of (set_status b APPROVED s) (check_conflicts s b) =
          map (\<lambda>c. booking_id (heap s c)) (check_conflicts s b)"
    by (simp add: ids_of_def)
  with assms show ?thesis
    by (simp add: approve_booking_def Let_def)
qed

theorem approve_override_logged_as_override_witness:
  "is_staff_or_admin staff \<and> check_conflicts range_day 11 \<noteq> []
   \<and> fst (approve_booking 30 ''e1'' 11 staff True range_day) = Inr True
   \<and> status (heap (snd (approve_booking 30 ''e1'' 11 staff True range_day)) 11) = APPROVED
   \<and> audit_log (snd (approve_booking 30 ''e1'' 11 staff True range_day)) =
       [\<lparr>entry_id = ''e1'', timestamp = 30, action = OVERRIDE, actor = staff, booking = 11,
         details = [Lit ''Booking approved with override (conflicts: '', Fmt_ids [''b0''],
                    Lit '')''],
         previous_state = Some [(''status'', Str ''pending'')]\<rparr>]
   \<and> check_conflicts range_day 13 = []
   \<and> audit_log (snd (approve_booking 30 ''e1'' 13 staff True range_day)) =
       [\<lparr>entry_id = ''e1'', timestamp = 30, action = APPROVE, actor = staff, booking = 13,
         details = [Lit ''Booking approved''],
         previous_state = Some [(''status'', Str ''pending'')]\<rparr>]"
proof -
  have c: "check_conflicts range_day 11 \<noteq> []"
    by (simp add: range_day_conflicts)
  from approve_override_logged_as_override [OF staff_is_staff, of range_day 11 30 "''e1''" True]
       approve_override_logged_as_override [OF staff_is_staff, of range_day 13 30 "''e1''" True]
       c staff_is_staff
  show ?thesis
    by (simp add: range_day_conflicts range_day_heap range_day_rest slot_def)
qed

text \<open>
  Claim C8, as the code has it. When the booking has no conflict, \<open>approve_booking\<close>
  called by an authorized approver returns true and appends exactly one APPROVE entry,
  whose previous state holds the status the booking had before the call: that is
  \<open>pending\<close> exactly when the booking was PENDING.
\<close>
theorem approve_without_conflicts:
  assumes "is_staff_or_admin approver" and "check_conflicts s b = []"
  shows "fst (approve_booking now uuid b approver force s) = Inr True
    \<and> status (heap (snd (approve_booking now uuid b approver force s)) b) = APPROVED
    \<and> audit_log (snd (approve_booking now uuid b approver force s)) =
        audit_log s @
        [\<lparr>entry_id = uuid, timestamp = now, action = APPROVE, actor = approver, booking = b,
          details = [Lit ''Booking approved''],
          previous_state = Some [(''status'', Str (status_value (status (heap s b))))]\<rparr>]
    \<and> ((status_value (status (heap s b)) = ''pending'') = (status (heap s b) = PENDING))"
proof -
  have "(status_value (status (heap s b)) = ''pending'') = (status (heap s b) = PENDING)"
    by (cases "status (heap s b)") simp_all
  with assms show ?thesis
    by (simp add: approve_booking_def Let_def)
qed

theorem approve_without_conflicts_witness:
  "is_staff_or_admin staff \<and> check_conflicts range_day 13 = []
   \<and> fst (approve_booking 30 ''e1'' 13 staff False range_day) = Inr True
   \<and> audit_log (snd (approve_booking 30 ''e1'' 13 staff False range_day)) =
       [\<lparr>entry_id = ''e1'', timestamp = 30, action = APPROVE, actor = staff, booking = 13,
         details = [Lit ''Booking approved''],
         previous_state = Some [(''status'', Str ''pending'')]\<rparr>]"
proof -
  have c: "check_conflicts range_day 13 = []"
    by (simp add: range_day_conflicts)
  from approve_without_conflicts [OF staff_is_staff c, of 30 "''e1''" False] c staff_is_staff
  show ?thesis
    by (simp add: range_day_heap range_day_rest slot_def)
qed

text \<open>
  The claim as stated promises the previous status \<open>pending\<close> for every booking without
  conflicts. A denied booking without conflicts is approved all the same, and the entry
  records \<open>denied\<close>.
\<close>
theorem approve_previous_state_pending_counterexample:
  "is_staff_or_admin staff \<and> check_conflicts after_deny 0 = []
   \<and> fst (approve_booking 3 ''e2'' 0 staff False after_deny) = Inr True
   \<and> action (last (audit_log (snd (approve_booking 3 ''e2'' 0 staff False after_deny)))) = APPROVE
   \<and> previous_state (last (audit_log (snd (approve_booking 3 ''e2'' 0 staff False after_deny))))
       = Some [(''status'', Str ''denied'')]
   \<and> previous_state (last (audit_log (snd (approve_booking 3 ''e2'' 0 staff False after_deny))))
       \<noteq> Some [(''status'', Str ''pending'')]"
  by (simp add: approve_booking_def Let_def staff_is_staff after_deny_facts)

text \<open>
  Claim C10. \<open>approve_booking\<close> changes at most the status of its target: every other
  booking object keeps all its fields, the target keeps all fields but its status, and
  the collection is the same. Every conflicting booking is another object of the
  collection, keeps its fields, is still APPROVED after the call and still overlaps the
  target; so after an override the collection holds two APPROVED bookings of one
  resource whose intervals overlap, as the example shows.
\<close>
theorem approve_booking_frame:
  "(\<forall>r. r \<noteq> b \<longrightarrow> heap (snd (approve_booking now uuid b approver force s)) r = heap s r)
   \<and> heap (snd (approve_booking now uuid b approver force s)) b =
       (heap s b)\<lparr>status := status (heap (snd (approve_booking now uuid b approver force s)) b)\<rparr>
   \<and> bookings (snd (approve_booking now uuid b approver force s)) = bookings s
   \<and> (\<forall>c \<in> set (check_conflicts s b).
         c \<noteq> b \<and> c \<in> set (bookings s) \<and>
         heap (snd (approve_booking now uuid b approver force s)) c = heap s c \<and>
         status (heap (snd (approve_booking now uuid b approver force s)) c) = APPROVED \<and>
         overlaps_with (heap (snd (approve_booking now uuid b approver force s)) b)
                       (heap (snd (approve_booking now uuid b approver force s)) c))"
proof (intro conjI allI impI ballI)
  fix r assume "r \<noteq> b"
  then show "heap (snd (approve_booking now uuid b approver force s)) r = heap s r"
    by (simp add: approve_booking_heap)
next
  show "heap (snd (approve_booking now uuid b approver force s)) b =
       (heap s b)\<lparr>status := status (heap (snd (approve_booking now uuid b approver force s)) b)\<rparr>"
    by (simp add: approve_booking_heap)
next
  show "bookings (snd (approve_booking now uuid b approver force s)) = bookings s"
    by (rule approve_booking_bookings)
next
  fix c assume c: "c \<in> set (check_conflicts s b)"
  note f = conflicts_facts [OF c]
  show "c \<noteq> b" by (rule f)
  show "c \<in> set (bookings s)" by (rule f)
  show "heap (snd (approve_booking now uuid b approver force s)) c = heap s c"
    using f(1) by (simp add: approve_booking_heap)
  show "status (heap (snd (approve_booking now uuid b approver force s)) c) = APPROVED"
    using f(1,3) by (simp add: approve_booking_heap)
  show "overlaps_with (heap (snd (approve_booking now uuid b approver force s)) b)
                       (heap (snd (approve_booking now uuid b approver force s)) c)"
    using f(1,4) by (simp add: approve_booking_heap)
qed

theorem approve_booking_frame_witness:
  "(10::nat) \<noteq> 11 \<and> 10 \<in> set (check_conflicts range_day 11)
   \<and> heap (snd (approve_booking 30 ''e1'' 11 staff True range_day)) 10 = heap range_day 10
   \<and> bookings (snd (approve_booking 30 ''e1'' 11 staff True range_day)) = [10, 11, 12, 13]
   \<and> status (heap (snd (approve_booking 30 ''e1'' 11 staff True range_day)) 10) = APPROVED
   \<and> status (heap (snd (approve_booking 30 ''e1'' 11 staff True range_day)) 11) = APPROVED
   \<and> overlaps_with (heap (snd (approve_booking 30 ''e1'' 11 staff True range_day)) 11)
                    (heap (snd (approve_booking 30 ''e1'' 11 staff True range_day)) 10)"
proof -
  have c: "10 \<in> set (check_conflicts range_day 11)"
    by (simp add: range_day_conflicts)
  have a: "status (heap (snd (approve_booking 30 ''e1'' 11 staff True range_day)) 11) = APPROVED"
    by (simp add: approve_booking_heap staff_is_staff)
  from approve_booking_frame [of 11 30 "''e1''" staff True range_day] c a
  show ?thesis
    by (simp add: range_day_conflicts range_day_rest range_day_heap slot_def
        overlaps_with_def)
qed

section \<open>Rescheduling\<close>

text \<open>
  Claim C3. For an authorized rescheduler and a new interval whose end is after its
  start: the conflict scan, run on the booking with the new times written in place,
  finds the conflicts on the new interval. If there are conflicts and \<open>force_override\<close>
  is false, the call returns false, the store is as before the call (so the booking's
  start time, end time and status are their old values) and one RESCHEDULE entry with no
  previous state is appended. Otherwise the call returns true, the booking has the new
  times and the status APPROVED whatever its status was, and one RESCHEDULE entry is
  appended whose previous state holds the old start time, end time and status.
\<close>
theorem reschedule_booking_outcome:
  assumes "is_staff_or_admin u" and "new_start < new_end"
  shows
   "check_conflicts (set_end_time b new_end (set_start_time b new_start s)) b =
      conflicts_on_interval s b new_start new_end
    \<and> (conflicts_on_interval s b new_start new_end \<noteq> [] \<and> \<not> force \<longrightarrow>
       fst (reschedule_booking now uuid b u new_start new_end force s) = Inr False \<and>
       heap (snd (reschedule_booking now uuid b u new_start new_end force s)) = heap s \<and>
       start_time (heap (snd (reschedule_booking now uuid b u new_start new_end force s)) b)
         = start_time (heap s b) \<and>
       end_time (heap (snd (reschedule_booking now uuid b u new_start new_end force s)) b)
         = end_time (heap s b) \<and>
       status (heap (snd (reschedule_booking now uuid b u new_start new_end force s)) b)
         = status (heap s b) \<and>
       audit_log (snd (reschedule_booking now uuid b u new_start new_end force s)) =
         audit_log s @
         [\<lparr>entry_id = uuid, timestamp = now, action = RESCHEDULE, actor = u, booking = b,
           details = [Lit ''Cannot reschedule due to conflicts with bookings: '',
                      Fmt_ids (map (\<lambda>c. booking_id (heap s c))
                                 (conflicts_on_interval s b new_start new_end))],
           previous_state = None\<rparr>])
    \<and> (\<not> (conflicts_on_interval s b new_start new_end \<noteq> [] \<and> \<not> force) \<longrightarrow>
       fst (reschedule_booking now uuid b u new_start new_end force s) = Inr True \<and>
       start_time (heap (snd (reschedule_booking now uuid b u new_start new_end force s)) b)
         = new_start \<and>
       end_time (heap (snd (reschedule_booking now uuid b u new_start new_end force s)) b)
         = new_end \<and>
       status (heap (snd (reschedule_booking now uuid b u new_start new_end force s)) b)
         = APPROVED \<and>
       audit_log (snd (reschedule_booking now uuid b u new_start new_end force s)) =
         audit_log s @
         [\<lparr>entry_id = uuid, timestamp = now, action = RESCHEDULE, actor = u, booking = b,
           details = [Lit ''Booking rescheduled from '', Fmt_datetime (start_time (heap s b)),
                      Lit '' to '', Fmt_datetime new_start] @
                     (if force \<and> conflicts_on_interval s b new_start new_end \<noteq> []
                      then [Lit '' (overriding conflicts: '',
                            Fmt_ids (map (\<lambda>c. booking_id (heap s c))
                                       (conflicts_on_interval s b new_start new_end)),
                            Lit '')'']
                      else []),
           previous_state = Some [(''start_time'', Isoformat (start_time (heap s b))),
                                  (''end_time'', Isoformat (end_time (heap s b))),
                                  (''status'', Str (status_value (status (heap s b))))]\<rparr>])"
  using assms
  by (simp add: reschedule_booking_fst reschedule_booking_heap reschedule_booking_audit_log
      check_conflicts_speculative)

theorem reschedule_booking_outcome_witness:
  "is_staff_or_admin staff \<and> (11::int) < 12 \<and> (14::int) < 16
   \<and> conflicts_on_interval range_day 12 11 12 \<noteq> []
   \<and> fst (reschedule_booking 30 ''e1'' 12 staff 11 12 False range_day) = Inr False
   \<and> heap (snd (reschedule_booking 30 ''e1'' 12 staff 11 12 False range_day)) = heap range_day
   \<and> audit_log (snd (reschedule_booking 30 ''e1'' 12 staff 11 12 False range_day)) =
       [\<lparr>entry_id = ''e1'', timestamp = 30, action = RESCHEDULE, actor = staff, booking = 12,
         details = [Lit ''Cannot reschedule due to conflicts with bookings: '',
                    Fmt_ids [''b0'']],
         previous_state = None\<rparr>]
   \<and> conflicts_on_interval range_day 12 14 16 = []
   \<and> fst (reschedule_booking 30 ''e1'' 12 staff 14 16 False range_day) = Inr True
   \<and> start_time (heap (snd (reschedule_booking 30 ''e1'' 12 staff 14 16 False range_day)) 12) = 14
   \<and> end_time (heap (snd (reschedule_booking 30 ''e1'' 12 staff 14 16 False range_day)) 12) = 16
   \<and> status (heap (snd (reschedule_booking 30 ''e1'' 12 staff 14 16 False range_day)) 12)
       = APPROVED
   \<and> audit_log (snd (reschedule_booking 30 ''e1'' 12 staff 14 16 False range_day)) =
       [\<lparr>entry_id = ''e1'', timestamp = 30, action = RESCHEDULE, actor = staff, booking = 12,
         details = [Lit ''Booking rescheduled from '', Fmt_datetime 20, Lit '' to '',
                    Fmt_datetime 14],
         previous_state = Some [(''start_time'', Isoformat 20), (''end_time'', Isoformat 22),
                                (''status'', Str ''denied'')]\<rparr>]"
proof -
  have t1: "(11::int) < 12" and t2: "(14::int) < 16" by simp_all
  from reschedule_booking_outcome [OF staff_is_staff t1, where s = range_day and b = 12
         and force = False and now = 30 and uuid = "''e1''"]
       reschedule_booking_outcome [OF staff_is_staff t2, where s = range_day and b = 12
         and force = False and now = 30 and uuid = "''e1''"]
       staff_is_staff
  show ?thesis
    by (simp add: range_day_intervals range_day_heap range_day_rest slot_def)
qed

section \<open>Hard failures\<close>

text \<open>
  Claim C7. When the actor's role is neither STAFF nor ADMIN, \<open>approve_booking\<close>,
  \<open>deny_booking\<close>, \<open>reschedule_booking\<close> and \<open>bump_booking\<close> raise a permission error;
  so does \<open>cancel_booking\<close> when in addition the actor's id is not the requester's. When
  the end time is not after the start time, \<open>create_booking_request\<close> raises a value
  error and \<open>reschedule_booking\<close> raises (a value error for an authorized actor, a
  permission error otherwise). In every one of these cases the state after the call is
  the state before it: the store, the collection and the audit log are untouched.
\<close>
theorem hard_failures_atomic:
  "(role u \<noteq> STAFF \<and> role u \<noteq> ADMIN \<longrightarrow>
      approve_booking now uuid b u force s =
        (Inl (PermissionError ''Only staff or admin can approve bookings''), s) \<and>
      deny_booking now uuid b u reason s =
        (Inl (PermissionError ''Only staff or admin can deny bookings''), s) \<and>
      reschedule_booking now uuid b u st en force s =
        (Inl (PermissionError ''Only staff or admin can reschedule bookings''), s) \<and>
      bump_booking now uuid b u hp reason s =
        (Inl (PermissionError ''Only staff or admin can bump bookings''), s))
   \<and> (user_id (requester (heap s b)) \<noteq> user_id u \<and> role u \<noteq> STAFF \<and> role u \<noteq> ADMIN \<longrightarrow>
      cancel_booking now uuid b u reason s =
        (Inl (PermissionError ''Only the requester or staff can cancel a booking''), s))
   \<and> (en \<le> st \<longrightarrow>
      create_booking_request created bid now uuid res req st en purp prio s =
        (Inl (ValueError ''End time must be after start time''), s) \<and>
      reschedule_booking now uuid b u st en force s =
        (Inl (if is_staff_or_admin u
              then ValueError ''End time must be after start time''
              else PermissionError ''Only staff or admin can reschedule bookings''), s))"
  by (simp add: is_staff_or_admin_def approve_booking_def deny_booking_def
      reschedule_booking_def bump_booking_def cancel_booking_def create_booking_request_def
      Booking_init_def Let_def)

theorem hard_failures_atomic_witness:
  "role mallory \<noteq> STAFF \<and> role mallory \<noteq> ADMIN
   \<and> user_id (requester (heap range_day 11)) \<noteq> user_id mallory
   \<and> approve_booking 30 ''e1'' 11 mallory True range_day =
       (Inl (PermissionError ''Only staff or admin can approve bookings''), range_day)
   \<and> deny_booking 30 ''e1'' 11 mallory ''no'' range_day =
       (Inl (PermissionError ''Only staff or admin can deny bookings''), range_day)
   \<and> reschedule_booking 30 ''e1'' 11 mallory 14 14 True range_day =
       (Inl (PermissionError ''Only staff or admin can reschedule bookings''), range_day)
   \<and> bump_booking 30 ''e1'' 10 mallory 11 ''no'' range_day =
       (Inl (PermissionError ''Only staff or admin can bump bookings''), range_day)
   \<and> cancel_booking 30 ''e1'' 11 mallory ''no'' range_day =
       (Inl (PermissionError ''Only the requester or staff can cancel a booking''), range_day)
   \<and> (14::int) \<le> 14
   \<and> create_booking_request 29 ''b4'' 30 ''e1'' bay1 alice 14 14 ''Training'' 0 range_day =
       (Inl (ValueError ''End time must be after start time''), range_day)
   \<and> reschedule_booking 30 ''e1'' 11 staff 14 14 True range_day =
       (Inl (ValueError ''End time must be after start time''), range_day)"
proof -
  have r: "role mallory \<noteq> STAFF \<and> role mallory \<noteq> ADMIN"
    by (simp add: mallory_def)
  have q: "user_id (requester (heap range_day 11)) \<noteq> user_id mallory"
    by (simp add: range_day_heap slot_def alice_def mallory_def)
  have t: "(14::int) \<le> 14" by simp
  from hard_failures_atomic [where u = mallory and now = 30 and uuid = "''e1''" and b = 11
         and force = True and s = range_day and reason = "''no''" and st = 14 and en = 14
         and hp = 11 and created = 29 and bid = "''b4''" and res = bay1 and req = alice
         and purp = "''Training''" and prio = 0]
       hard_failures_atomic [where u = mallory and now = 30 and uuid = "''e1''" and b = 10
         and force = True and s = range_day and reason = "''no''" and st = 14 and en = 14
         and hp = 11 and created = 29 and bid = "''b4''" and res = bay1 and req = alice
         and purp = "''Training''" and prio = 0]
       hard_failures_atomic [where u = staff and now = 30 and uuid = "''e1''" and b = 11
         and force = True and s = range_day and reason = "''no''" and st = 14 and en = 14
         and hp = 11 and created = 29 and bid = "''b4''" and res = bay1 and req = alice
         and purp = "''Training''" and prio = 0]
       r q t staff_is_staff
  show ?thesis by simp
qed

section \<open>The audit log\<close>

text \<open>
  Claim C2. For each of \<open>create_booking_request\<close>, \<open>approve_booking\<close>, \<open>deny_booking\<close>,
  \<open>reschedule_booking\<close>, \<open>bump_booking\<close> and \<open>cancel_booking\<close>: the audit log before the
  call is a prefix of the audit log after it, and when the call does not raise the log
  is longer by exactly one entry. When \<open>approve_booking\<close> or \<open>reschedule_booking\<close> returns
  false, the store and the collection are unchanged and the appended entry has no
  previous state and details that name the conflicting bookings.
\<close>
theorem audit_log_append_only:
  "(let R = create_booking_request created bid now uuid res req st en purp prio s in
      prefix (audit_log s) (audit_log (snd R)) \<and>
      (\<forall>v. fst R = Inr v \<longrightarrow> length (audit_log (snd R)) = Suc (length (audit_log s))))
   \<and> (let R = approve_booking now uuid b u force s in
      prefix (audit_log s) (audit_log (snd R)) \<and>
      (\<forall>v. fst R = Inr v \<longrightarrow> length (audit_log (snd R)) = Suc (length (audit_log s))) \<and>
      (fst R = Inr False \<longrightarrow>
         heap (snd R) = heap s \<and> bookings (snd R) = bookings s \<and>
         previous_state (last (audit_log (snd R))) = None \<and>
         details (last (audit_log (snd R))) =
           [Lit ''Cannot approve due to conflicts with bookings: '',
            Fmt_ids (map (\<lambda>c. booking_id (heap s c)) (check_conflicts s b))]))
   \<and> (let R = deny_booking now uuid b u reason s in
      prefix (audit_log s) (audit_log (snd R)) \<and>
      (\<forall>v. fst R = Inr v \<longrightarrow> length (audit_log (snd R)) = Suc (length (audit_log s))))
   \<and> (let R = reschedule_booking now uuid b u st en force s in
      prefix (audit_log s) (audit_log (snd R)) \<and>
      (\<forall>v. fst R = Inr v \<longrightarrow> length (audit_log (snd R)) = Suc (length (audit_log s))) \<and>
      (fst R = Inr False \<longrightarrow>
         heap (snd R) = heap s \<and> bookings (snd R) = bookings s \<and>
         previous_state (last (audit_log (snd R))) = None \<and>
         details (last (audit_log (snd R))) =
           [Lit ''Cannot reschedule due to conflicts with bookings: '',
            Fmt_ids (map (\<lambda>c. booking_id (heap s c)) (conflicts_on_interval s b st en))]))
   \<and> (let R = bump_booking now uuid b u hp reason s in
      prefix (audit_log s) (audit_log (snd R)) \<and>
      (\<forall>v. fst R = Inr v \<longrightarrow> length (audit_log (snd R)) = Suc (length (audit_log s))))
   \<and> (let R = cancel_booking now uuid b u reason s in
      prefix (audit_log s) (audit_log (snd R)) \<and>
      (\<forall>v. fst R = Inr v \<longrightarrow> length (audit_log (snd R)) = Suc (length (audit_log s))))"
  unfolding Let_def
proof (intro conjI)
  show "prefix (audit_log s)
          (audit_log (snd (create_booking_request created bid now uuid res req st en purp prio s)))"
    by (simp add: create_booking_request_def Let_def split: sum.split)
  show "\<forall>v. fst (create_booking_request created bid now uuid res req st en purp prio s) = Inr v
          \<longrightarrow> length (audit_log (snd (create_booking_request created bid now uuid res req st en
                  purp prio s))) = Suc (length (audit_log s))"
    by (simp add: create_booking_request_def Let_def split: sum.split)
  show "prefix (audit_log s) (audit_log (snd (approve_booking now uuid b u force s)))"
    by (simp add: approve_booking_audit_log)
  show "\<forall>v. fst (approve_booking now uuid b u force s) = Inr v \<longrightarrow>
          length (audit_log (snd (approve_booking now uuid b u force s))) =
          Suc (length (audit_log s))"
    by (simp add: approve_booking_audit_log approve_booking_fst)
  show "fst (approve_booking now uuid b u force s) = Inr False \<longrightarrow>
         heap (snd (approve_booking now uuid b u force s)) = heap s \<and>
         bookings (snd (approve_booking now uuid b u force s)) = bookings s \<and>
         previous_state (last (audit_log (snd (approve_booking now uuid b u force s)))) = None \<and>
         details (last (audit_log (snd (approve_booking now uuid b u force s)))) =
           [Lit ''Cannot approve due to conflicts with bookings: '',
            Fmt_ids (map (\<lambda>c. booking_id (heap s c)) (check_conflicts s b))]"
    by (simp add: approve_booking_audit_log approve_booking_fst approve_booking_heap
        approve_booking_bookings)
  show "prefix (audit_log s) (audit_log (snd (deny_booking now uuid b u reason s)))"
    by (simp add: deny_booking_def Let_def)
  show "\<forall>v. fst (deny_booking now uuid b u reason s) = Inr v \<longrightarrow>
          length (audit_log (snd (deny_booking now uuid b u reason s))) =
          Suc (length (audit_log s))"
    by (simp add: deny_booking_def Let_def)
  show "prefix (audit_log s) (audit_log (snd (reschedule_booking now uuid b u st en force s)))"
    by (simp add: reschedule_booking_audit_log)
  show "\<forall>v. fst (reschedule_booking now uuid b u st en force s) = Inr v \<longrightarrow>
          length (audit_log (snd (reschedule_booking now uuid b u st en force s))) =
          Suc (length (audit_log s))"
    by (simp add: reschedule_booking_audit_log reschedule_booking_fst)
  show "fst (reschedule_booking now uuid b u st en force s) = Inr False \<longrightarrow>
         heap (snd (reschedule_booking now uuid b u st en force s)) = heap s \<and>
         bookings (snd (reschedule_booking now uuid b u st en force s)) = bookings s \<and>
         previous_state (last (audit_log (snd (reschedule_booking now uuid b u st en force s))))
           = None \<and>
         details (last (audit_log (snd (reschedule_booking now uuid b u st en force s)))) =
           [Lit ''Cannot reschedule due to conflicts with bookings: '',
            Fmt_ids (map (\<lambda>c. booking_id (heap s c)) (conflicts_on_interval s b st en))]"
    by (simp add: reschedule_booking_audit_log reschedule_booking_fst reschedule_booking_heap
        reschedule_booking_bookings)
  show "prefix (audit_log s) (audit_log (snd (bump_booking now uuid b u hp reason s)))"
    by (simp add: bump_booking_def Let_def)
  show "\<forall>v. fst (bump_booking now uuid b u hp reason s) = Inr v \<longrightarrow>
          length (audit_log (snd (bump_booking now uuid b u hp reason s))) =
          Suc (length (audit_log s))"
    by (simp add: bump_booking_def Let_def)
  show "prefix (audit_log s) (audit_log (snd (cancel_booking now uuid b u reason s)))"
    by (simp add: cancel_booking_def Let_def)
  show "\<forall>v. fst (cancel_booking now uuid b u reason s) = Inr v \<longrightarrow>
          length (audit_log (snd (cancel_booking now uuid b u reason s))) =
          Suc (length (audit_log s))"
    by (simp add: cancel_booking_def Let_def)
qed

theorem audit_log_append_only_witness:
  "audit_log range_day = []
   \<and> fst (approve_booking 30 ''e1'' 11 staff False range_day) = Inr False
   \<and> length (audit_log (snd (approve_booking 30 ''e1'' 11 staff False range_day))) = Suc 0
   \<and> heap (snd (approve_booking 30 ''e1'' 11 staff False range_day)) = heap range_day
   \<and> previous_state (last (audit_log (snd (approve_booking 30 ''e1'' 11 staff False range_day))))
       = None
   \<and> details (last (audit_log (snd (approve_booking 30 ''e1'' 11 staff False range_day))))
       = [Lit ''Cannot approve due to conflicts with bookings: '', Fmt_ids [''b0'']]
   \<and> fst (create_booking_request 29 ''b4'' 30 ''e1'' bay1 alice 14 16 ''Training'' 0 range_day)
       = Inr 14
   \<and> length (audit_log (snd (create_booking_request 29 ''b4'' 30 ''e1'' bay1 alice 14 16
                 ''Training'' 0 range_day))) = Suc 0"
proof -
  have a: "fst (approve_booking 30 ''e1'' 11 staff False range_day) = Inr False"
    by (simp add: approve_booking_fst staff_is_staff range_day_conflicts)
  have c: "fst (create_booking_request 29 ''b4'' 30 ''e1'' bay1 alice 14 16 ''Training'' 0
                  range_day) = Inr 14"
    by (simp add: create_booking_request_def Booking_init_def Let_def range_day_def)
  note T = audit_log_append_only [where s = range_day and now = 30 and uuid = "''e1''"
         and b = 11 and u = staff and force = False and created = 29 and bid = "''b4''"
         and res = bay1 and req = alice and st = 14 and en = 16 and purp = "''Training''"
         and prio = 0 and reason = "''no''" and hp = 10, unfolded Let_def]
  note C = T [THEN conjunct1]
  note A = T [THEN conjunct2, THEN conjunct1]
  from A a have 1: "length (audit_log (snd (approve_booking 30 ''e1'' 11 staff False range_day)))
      = Suc (length (audit_log range_day))"
    by blast
  from A a have 2: "heap (snd (approve_booking 30 ''e1'' 11 staff False range_day))
      = heap range_day"
    by blast
  from A a have 3:
    "previous_state (last (audit_log (snd (approve_booking 30 ''e1'' 11 staff False range_day))))
      = None"
    by blast
  from A a have 4:
    "details (last (audit_log (snd (approve_booking 30 ''e1'' 11 staff False range_day))))
      = [Lit ''Cannot approve due to conflicts with bookings: '',
         Fmt_ids (map (\<lambda>c. booking_id (heap range_day c)) (check_conflicts range_day 11))]"
    by blast
  from C c have 5:
    "length (audit_log (snd (create_booking_request 29 ''b4'' 30 ''e1'' bay1 alice 14 16
                 ''Training'' 0 range_day))) = Suc (length (audit_log range_day))"
    by blast
  from a c 1 2 3 4 5 show ?thesis
    by (simp add: range_day_rest range_day_conflicts range_day_heap slot_def)
qed

section \<open>Terminal statuses\<close>

text \<open>
  Claim C1, as the code has it. For a booking whose status is DENIED, CANCELLED or
  BUMPED: \<open>deny_booking\<close>, \<open>bump_booking\<close> and \<open>cancel_booking\<close> never make it APPROVED,
  whatever their target. After \<open>approve_booking\<close> or \<open>reschedule_booking\<close> its status is
  APPROVED when it is the target of the call and the call returns true, and is the status
  it had before the call in every other case (another target, a call that returns false,
  a call that raises); so it is APPROVED exactly when it is the target and the call
  returns true. No operation looks at the status the booking had.
\<close>
theorem terminal_status_transitions:
  assumes "status (heap s t) = DENIED \<or> status (heap s t) = CANCELLED \<or>
           status (heap s t) = BUMPED"
  shows "status (heap (snd (deny_booking now uuid b u reason s)) t) \<noteq> APPROVED
    \<and> status (heap (snd (bump_booking now uuid b u hp reason s)) t) \<noteq> APPROVED
    \<and> status (heap (snd (cancel_booking now uuid b u reason s)) t) \<noteq> APPROVED
    \<and> status (heap (snd (approve_booking now uuid b u force s)) t) =
        (if t = b \<and> fst (approve_booking now uuid b u force s) = Inr True
         then APPROVED else status (heap s t))
    \<and> status (heap (snd (reschedule_booking now uuid b u st en force s)) t) =
        (if t = b \<and> fst (reschedule_booking now uuid b u st en force s) = Inr True
         then APPROVED else status (heap s t))
    \<and> ((status (heap (snd (approve_booking now uuid b u force s)) t) = APPROVED) =
        (t = b \<and> fst (approve_booking now uuid b u force s) = Inr True))
    \<and> ((status (heap (snd (reschedule_booking now uuid b u st en force s)) t) = APPROVED) =
        (t = b \<and> fst (reschedule_booking now uuid b u st en force s) = Inr True))"
proof (intro conjI)
  show "status (heap (snd (deny_booking now uuid b u reason s)) t) \<noteq> APPROVED"
    using assms by (auto simp: deny_booking_heap)
  show "status (heap (snd (bump_booking now uuid b u hp reason s)) t) \<noteq> APPROVED"
    using assms by (auto simp: bump_booking_heap)
  show "status (heap (snd (cancel_booking now uuid b u reason s)) t) \<noteq> APPROVED"
    using assms by (auto simp: cancel_booking_heap)
  show a: "status (heap (snd (approve_booking now uuid b u force s)) t) =
        (if t = b \<and> fst (approve_booking now uuid b u force s) = Inr True
         then APPROVED else status (heap s t))"
    by (simp add: approve_booking_heap approve_booking_fst)
  show r: "status (heap (snd (reschedule_booking now uuid b u st en force s)) t) =
        (if t = b \<and> fst (reschedule_booking now uuid b u st en force s) = Inr True
         then APPROVED else status (heap s t))"
    by (simp add: reschedule_booking_heap reschedule_booking_fst)
  show "(status (heap (snd (approve_booking now uuid b u force s)) t) = APPROVED) =
        (t = b \<and> fst (approve_booking now uuid b u force s) = Inr True)"
    unfolding a using assms by auto
  show "(status (heap (snd (reschedule_booking now uuid b u st en force s)) t) = APPROVED) =
        (t = b \<and> fst (reschedule_booking now uuid b u st en force s) = Inr True)"
    unfolding r using assms by auto
qed

theorem terminal_status_transitions_witness:
  "status (heap range_day 12) = DENIED
   \<and> status (heap (snd (deny_booking 30 ''e1'' 12 staff ''no'' range_day)) 12) \<noteq> APPROVED
   \<and> status (heap (snd (bump_booking 30 ''e1'' 12 staff 13 ''no'' range_day)) 12) \<noteq> APPROVED
   \<and> status (heap (snd (cancel_booking 30 ''e1'' 12 staff ''no'' range_day)) 12) \<noteq> APPROVED
   \<and> status (heap (snd (approve_booking 30 ''e1'' 13 staff False range_day)) 12) = DENIED
   \<and> status (heap (snd (reschedule_booking 30 ''e1'' 13 staff 14 16 False range_day)) 12)
       = DENIED
   \<and> fst (reschedule_booking 30 ''e1'' 12 staff 11 12 False range_day) = Inr False
   \<and> status (heap (snd (reschedule_booking 30 ''e1'' 12 staff 11 12 False range_day)) 12)
       = DENIED
   \<and> status (heap (snd (approve_booking 30 ''e1'' 12 mallory False range_day)) 12) = DENIED
   \<and> status (heap (snd (approve_booking 30 ''e1'' 12 staff False range_day)) 12) = APPROVED
   \<and> status (heap (snd (reschedule_booking 30 ''e1'' 12 staff 14 16 False range_day)) 12)
       = APPROVED"
proof -
  have d: "status (heap range_day 12) = DENIED"
    by (simp add: range_day_heap slot_def)
  then have h: "status (heap range_day 12) = DENIED \<or> status (heap range_day 12) = CANCELLED \<or>
                status (heap range_day 12) = BUMPED"
    by simp
  have m: "\<not> is_staff_or_admin mallory"
    by (simp add: is_staff_or_admin_def mallory_def)
  from terminal_status_transitions [OF h, where b = 12 and now = 30 and uuid = "''e1''"
         and u = staff and reason = "''no''" and hp = 13 and force = False and st = 14
         and en = 16]
       terminal_status_transitions [OF h, where b = 13 and now = 30 and uuid = "''e1''"
         and u = staff and reason = "''no''" and hp = 13 and force = False and st = 14
         and en = 16]
       terminal_status_transitions [OF h, where b = 12 and now = 30 and uuid = "''e1''"
         and u = staff and reason = "''no''" and hp = 13 and force = False and st = 11
         and en = 12]
       terminal_status_transitions [OF h, where b = 12 and now = 30 and uuid = "''e1''"
         and u = mallory and reason = "''no''" and hp = 13 and force = False and st = 14
         and en = 16]
       d m
  show ?thesis
    by (simp add: approve_booking_fst reschedule_booking_fst staff_is_staff
        range_day_conflicts range_day_intervals)
qed

text \<open>
  The claim as stated has no call making a DENIED booking APPROVED. Staff approve, or
  reschedule, the denied request of the second scenario, and it is APPROVED.
\<close>
theorem terminal_status_approved_counterexample:
  "status (heap after_deny 0) = DENIED
   \<and> fst (approve_booking 3 ''e2'' 0 staff False after_deny) = Inr True
   \<and> status (heap (snd (approve_booking 3 ''e2'' 0 staff False after_deny)) 0) = APPROVED
   \<and> fst (reschedule_booking 3 ''e2'' 0 staff 14 16 False after_deny) = Inr True
   \<and> status (heap (snd (reschedule_booking 3 ''e2'' 0 staff 14 16 False after_deny)) 0)
       = APPROVED"
  by (simp add: approve_booking_heap approve_booking_fst reschedule_booking_heap
      reschedule_booking_fst staff_is_staff after_deny_facts conflicts_on_interval_def)

end
